theory Spec2Isabelle
  imports Main
begin

section \<open>Gitleaks-Pipeline: src/transform_results.py\<close>

text \<open>
  The script wraps the \<^verbatim>\<open>gitleaks\<close> command line tool: it prepares the argument list
  (\<^verbatim>\<open>check_args\<close>), runs the tool (\<^verbatim>\<open>run_gitleaks\<close>), and rewrites the tool's JSON report
  into a shorter one (\<^verbatim>\<open>transform_results\<close>). Every user-facing failure goes through
  \<^verbatim>\<open>write_error_message\<close>, which writes a small JSON file and calls \<^verbatim>\<open>sys.exit\<close>.

  The embedding is by explicit state passing. A procedure of the script is a function from
  the state of the process and its surroundings (\<open>world\<close>) to an \<open>outcome\<close> and the new state.
  \<^verbatim>\<open>sys.exit(c)\<close> and an uncaught exception are outcomes of their own, so that each of them
  is a branch of the model; sequencing (\<open>and_then\<close>) runs the next statement only after the
  previous one has returned, as Python does.
\<close>

subsection \<open>Values\<close>

text \<open>
  What \<^verbatim>\<open>json.load\<close> returns: \<^verbatim>\<open>None\<close>, a \<^verbatim>\<open>bool\<close>, an \<^verbatim>\<open>int\<close> (unbounded), a
  \<^verbatim>\<open>float\<close>, a \<^verbatim>\<open>str\<close>, a \<^verbatim>\<open>list\<close> or a \<^verbatim>\<open>dict\<close> with string keys. A float is
  carried as the text that Python's \<^verbatim>\<open>repr\<close> prints for it, which is all the script ever
  does with one. A dict is an association list read with \<open>map_of\<close>.
\<close>

datatype json =
    JNull
  | JBool bool
  | JInt int
  | JFloat string
  | JStr string
  | JArr "json list"
  | JObj "(string \<times> json) list"

datatype exn =
    JSONDecodeError
  | AttributeError
  | TypeError
  | ValidationError
  | OSError string

text \<open>
  \<open>Exited c\<close> is \<^verbatim>\<open>SystemExit\<close> with code \<open>c\<close> reaching the top of the program;
  \<open>Raised e\<close> is any other exception doing so.
\<close>

datatype 'a outcome = Returned 'a | Exited int | Raised exn

datatype ExitCodes =
    SUCCESS
  | ARGUMENT_OR_FLAG_ERROR
  | COMMAND_ERROR
  | FILE_NOT_FOUND
  | NO_FINDINGS
  | NO_GIT_FOLDER

fun exit_value :: "ExitCodes \<Rightarrow> int" where
  "exit_value SUCCESS = 0"
| "exit_value ARGUMENT_OR_FLAG_ERROR = 1"
| "exit_value COMMAND_ERROR = 2"
| "exit_value FILE_NOT_FOUND = 3"
| "exit_value NO_FINDINGS = 4"
| "exit_value NO_GIT_FOLDER = 5"

subsection \<open>The process and its surroundings\<close>

text \<open>
  A path of the file system names a readable regular file with its text, or something that
  exists and cannot be opened for reading (a directory, a file without permission), with
  the text of the \<^verbatim>\<open>OSError\<close>. \<open>open_w_err p\<close> is the text of the \<^verbatim>\<open>OSError\<close> that
  \<^verbatim>\<open>open(p, 'w')\<close> raises, or \<open>None\<close> when the file can be opened for writing.
  \<open>clock\<close> lists what \<^verbatim>\<open>datetime.now().strftime("%Y-%m-%d_%H:%M:%S")\<close> answers at
  successive calls, and \<open>tick\<close> counts the calls made so far.
\<close>

datatype node = Regular string | Unreadable string

record world =
  argv :: "string list"
  files :: "string \<rightharpoonup> node"
  open_w_err :: "string \<Rightarrow> string option"
  stdout :: string
  stderr :: string
  clock :: "nat \<Rightarrow> string"
  tick :: nat

text \<open>
  How a child process ends: with exit status 0; with another exit status, having written
  the given text to its standard error; or not at all, because the program could not be
  started (\<^verbatim>\<open>subprocess.run\<close> then raises an \<^verbatim>\<open>OSError\<close> with the given text).
\<close>

datatype child_result =
    Completed
  | Failed string
  | NotStarted string

text \<open>
  The library functions the script calls and the external tool it starts, none of which is
  code of the script: the JSON parser (\<open>None\<close> for text that is not JSON), the JSON printer
  with \<^verbatim>\<open>indent=4\<close>, \<^verbatim>\<open>str()\<close> of a list or a dict, and the run of a child process,
  which may change the world (gitleaks writes its report file).
\<close>

record env =
  json_load :: "string \<Rightarrow> json option"
  json_dumps :: "json \<Rightarrow> string"
  repr_container :: "json \<Rightarrow> string"
  subprocess_run :: "string list \<Rightarrow> world \<Rightarrow> child_result \<times> world"

type_synonym 'a proc = "world \<Rightarrow> 'a outcome \<times> world"

definition return :: "'a \<Rightarrow> 'a proc" where
  "return x w = (Returned x, w)"

definition and_then :: "'a proc \<Rightarrow> ('a \<Rightarrow> 'b proc) \<Rightarrow> 'b proc" where
  "and_then m f w =
     (case m w of
        (Returned x, w') \<Rightarrow> f x w'
      | (Exited c, w') \<Rightarrow> (Exited c, w')
      | (Raised e, w') \<Rightarrow> (Raised e, w'))"

definition next_do :: "unit proc \<Rightarrow> 'b proc \<Rightarrow> 'b proc" where
  "next_do m n = and_then m (\<lambda>_. n)"

text \<open>An \<^verbatim>\<open>if\<close> statement without \<^verbatim>\<open>else\<close>.\<close>

definition when_do :: "bool \<Rightarrow> unit proc \<Rightarrow> unit proc" where
  "when_do b m = (if b then m else return ())"

definition sys_exit :: "int \<Rightarrow> 'a proc" where
  "sys_exit c w = (Exited c, w)"

definition raise :: "exn \<Rightarrow> 'a proc" where
  "raise e w = (Raised e, w)"

definition newline :: char where
  "newline = CHR 0x0A"

definition print :: "string \<Rightarrow> unit proc" where
  "print s w = (Returned (), w\<lparr>stdout := stdout w @ s @ [newline]\<rparr>)"

definition stderr_write :: "string \<Rightarrow> unit proc" where
  "stderr_write s w = (Returned (), w\<lparr>stderr := stderr w @ s\<rparr>)"

text \<open>
  \<^verbatim>\<open>with open(p, 'w') as file: json.dump(v, file, indent=4)\<close>: the result is the text
  of the \<^verbatim>\<open>OSError\<close>, or the world with the file written.
\<close>

definition write_json :: "env \<Rightarrow> string \<Rightarrow> json \<Rightarrow> world \<Rightarrow> string + world" where
  "write_json E p v w =
     (case open_w_err w p of
        Some msg \<Rightarrow> Inl msg
      | None \<Rightarrow> Inr (w\<lparr>files := (files w)(p \<mapsto> Regular (json_dumps E v))\<rparr>))"

subsection \<open>The error reporter\<close>

definition error_report :: "int \<Rightarrow> string \<Rightarrow> json" where
  "error_report error_code error_message =
     JObj [(''exit_code'', JInt error_code), (''error_message'', JStr error_message)]"

definition write_error_message :: "env \<Rightarrow> string \<Rightarrow> int \<Rightarrow> string \<Rightarrow> unit proc" where
  "write_error_message E error_message error_code report_file w =
     (case write_json E report_file (error_report error_code error_message) w of
        Inl e \<Rightarrow>
          next_do (print (''Error writing to output file: '' @ e)) (sys_exit error_code) w
      | Inr w' \<Rightarrow>
          next_do (print (''[!] Please check the output file for more details: '' @ report_file))
            (sys_exit error_code) w')"

subsection \<open>Strings\<close>

text \<open>
  A string is a list of characters with code points below 256, which is exact for ASCII
  and Latin-1 text. \<open>contains k s\<close> is Python's \<^verbatim>\<open>k in s\<close>; \<open>py_isspace\<close> is
  \<^verbatim>\<open>str.isspace\<close> on one such character (tab to carriage return, the four separators
  \<^verbatim>\<open>\x1c\<close> to \<^verbatim>\<open>\x1f\<close>, space, \<^verbatim>\<open>\x85\<close> and \<^verbatim>\<open>\xa0\<close>), and \<open>strip\<close> removes
  these at both ends as \<^verbatim>\<open>str.strip()\<close> does; \<open>first_line\<close> is
  \<^verbatim>\<open>s.split('\n')[0]\<close>; \<open>str_int\<close> is \<^verbatim>\<open>str\<close> of an \<^verbatim>\<open>int\<close>.
\<close>

fun starts_with :: "string \<Rightarrow> string \<Rightarrow> bool" where
  "starts_with [] s = True"
| "starts_with (k # ks) [] = False"
| "starts_with (k # ks) (c # cs) = (k = c \<and> starts_with ks cs)"

fun contains :: "string \<Rightarrow> string \<Rightarrow> bool" where
  "contains k [] = (k = [])"
| "contains k (c # cs) = (starts_with k (c # cs) \<or> contains k cs)"

definition py_isspace :: "char \<Rightarrow> bool" where
  "py_isspace c =
     (let n = (of_char c :: nat)
      in (9 \<le> n \<and> n \<le> 13) \<or> (28 \<le> n \<and> n \<le> 32) \<or> n = 133 \<or> n = 160)"

definition strip :: "string \<Rightarrow> string" where
  "strip s = rev (dropWhile py_isspace (rev (dropWhile py_isspace s)))"

definition first_line :: "string \<Rightarrow> string" where
  "first_line s = takeWhile (\<lambda>c. c \<noteq> newline) s"

fun digits :: "nat \<Rightarrow> string" where
  "digits n =
     (if n < 10 then [''0123456789'' ! n]
      else digits (n div 10) @ [''0123456789'' ! (n mod 10)])"

declare digits.simps [simp del]

definition str_int :: "int \<Rightarrow> string" where
  "str_int i = (if i < 0 then ''-'' @ digits (nat (- i)) else digits (nat i))"

text \<open>\<^verbatim>\<open>str(v)\<close>, as the f-string applies it to a value read from the report.\<close>

definition py_str :: "env \<Rightarrow> json \<Rightarrow> string" where
  "py_str E v =
     (case v of
        JStr s \<Rightarrow> s
      | JInt i \<Rightarrow> str_int i
      | JBool b \<Rightarrow> (if b then ''True'' else ''False'')
      | JNull \<Rightarrow> ''None''
      | JFloat r \<Rightarrow> r
      | _ \<Rightarrow> repr_container E v)"

subsection \<open>Report file names\<close>

record ReportFile =
  base_name :: string
  extension :: string
  timestamp :: string

definition generate_filename :: "ReportFile \<Rightarrow> string" where
  "generate_filename rf = base_name rf @ ''_'' @ timestamp rf @ extension rf"

definition create_with_timestamp :: "string \<Rightarrow> string \<Rightarrow> ReportFile proc" where
  "create_with_timestamp base ext w =
     (Returned \<lparr>base_name = base, extension = ext, timestamp = clock w (tick w)\<rparr>,
      w\<lparr>tick := Suc (tick w)\<rparr>)"

subsection \<open>Running gitleaks\<close>

text \<open>
  \<^verbatim>\<open>subprocess.run(args, check=True, capture_output=True, text=True)\<close> inside
  \<^verbatim>\<open>try\<close>: only \<^verbatim>\<open>CalledProcessError\<close> is caught, and its handler is the rest of
  the function. The three classification checks and the verbose check are four
  \<^verbatim>\<open>if\<close> statements in a row.
\<close>

definition no_git_message :: string where
  "no_git_message =
     ''No .git folder found. Ensure you are in the root directory of the repository or add the flag ''
     @ [CHR 0x27] @ ''--no-git'' @ [CHR 0x27]"

definition is_command_error :: "string \<Rightarrow> bool" where
  "is_command_error error_message =
     list_ex (\<lambda>keyword. contains keyword error_message)
       [''unknown flag:'', ''flag needs an argument:'']"

definition is_argument_or_flag_error :: "string \<Rightarrow> bool" where
  "is_argument_or_flag_error error_message =
     list_ex (\<lambda>keyword. contains keyword error_message)
       [''unknown command'', ''for more information about a command.'']"

definition is_no_git_folder :: "string \<Rightarrow> bool" where
  "is_no_git_folder e_stderr = contains ''could not create Git cmd'' e_stderr"

definition verbose :: "world \<Rightarrow> bool" where
  "verbose w = (''--verbose'' \<in> set (argv w) \<or> ''-v'' \<in> set (argv w))"

definition on_called_process_error :: "env \<Rightarrow> string \<Rightarrow> string \<Rightarrow> unit proc" where
  "on_called_process_error E e_stderr report_file =
     (let error_message = first_line (strip e_stderr) in
      next_do
        (when_do (is_command_error error_message)
           (write_error_message E error_message (exit_value COMMAND_ERROR) report_file))
        (next_do
           (when_do (is_argument_or_flag_error error_message)
              (write_error_message E error_message (exit_value ARGUMENT_OR_FLAG_ERROR)
                 report_file))
           (next_do
              (when_do (is_no_git_folder e_stderr)
                 (write_error_message E no_git_message (exit_value NO_GIT_FOLDER) report_file))
              (\<lambda>w. when_do (verbose w) (stderr_write e_stderr) w))))"

definition run_gitleaks :: "env \<Rightarrow> string list \<Rightarrow> string \<Rightarrow> unit proc" where
  "run_gitleaks E command_args report_file w =
     (case subprocess_run E command_args w of
        (Completed, w') \<Rightarrow> return () w'
      | (Failed e_stderr, w') \<Rightarrow> on_called_process_error E e_stderr report_file w'
      | (NotStarted msg, w') \<Rightarrow> raise (OSError msg) w')"

subsection \<open>Transforming the report\<close>

text \<open>
  The dict that the list comprehension builds for one item: \<^verbatim>\<open>item.get\<close> returns
  whatever the report holds under the key, so two of its values are not yet known to be
  strings.
\<close>

record finding_dict =
  d_filename :: json
  d_line_range :: string
  d_description :: json

record GitleaksResultItem =
  filename :: string
  line_range :: string
  description :: string

record GitleaksResults =
  findings :: "GitleaksResultItem list"

definition dict_get :: "(string \<times> json) list \<Rightarrow> string \<Rightarrow> json \<Rightarrow> json" where
  "dict_get kvs k d = (case map_of kvs k of Some v \<Rightarrow> v | None \<Rightarrow> d)"

text \<open>Only a dict has \<^verbatim>\<open>get\<close>: on any other item the first call raises.\<close>

definition condense :: "env \<Rightarrow> json \<Rightarrow> exn + finding_dict" where
  "condense E item =
     (case item of
        JObj kvs \<Rightarrow>
          Inr \<lparr>d_filename = dict_get kvs ''File'' (JStr ''unknown''),
               d_line_range =
                 py_str E (dict_get kvs ''StartLine'' (JStr ''unknown'')) @ ''-''
                 @ py_str E (dict_get kvs ''EndLine'' (JStr ''unknown'')),
               d_description = dict_get kvs ''Description'' (JStr ''No description provided'')\<rparr>
      | _ \<Rightarrow> Inl AttributeError)"

fun condense_all :: "env \<Rightarrow> json list \<Rightarrow> exn + finding_dict list" where
  "condense_all E [] = Inr []"
| "condense_all E (item # items) =
     (case condense E item of
        Inl e \<Rightarrow> Inl e
      | Inr f \<Rightarrow> (case condense_all E items of Inl e \<Rightarrow> Inl e | Inr fs \<Rightarrow> Inr (f # fs)))"

text \<open>
  \<^verbatim>\<open>for item in gitleaks_output\<close>: a list gives its elements, a dict its keys, a string
  its characters; nothing else can be iterated.
\<close>

definition py_iter :: "json \<Rightarrow> exn + json list" where
  "py_iter v =
     (case v of
        JArr xs \<Rightarrow> Inr xs
      | JObj kvs \<Rightarrow> Inr (map (\<lambda>kv. JStr (fst kv)) kvs)
      | JStr s \<Rightarrow> Inr (map (\<lambda>c. JStr [c]) s)
      | _ \<Rightarrow> Inl TypeError)"

definition comprehension :: "env \<Rightarrow> json \<Rightarrow> exn + finding_dict list" where
  "comprehension E v = (case py_iter v of Inl e \<Rightarrow> Inl e | Inr items \<Rightarrow> condense_all E items)"

text \<open>
  \<^verbatim>\<open>GitleaksResults(findings=findings)\<close>: pydantic checks every dict against
  \<^verbatim>\<open>GitleaksResultItem\<close>, whose three fields are declared \<^verbatim>\<open>str\<close>, and raises
  \<^verbatim>\<open>ValidationError\<close> when a value is not a string.
\<close>

fun as_str :: "json \<Rightarrow> string option" where
  "as_str (JStr s) = Some s"
| "as_str _ = None"

definition validate_item :: "finding_dict \<Rightarrow> GitleaksResultItem option" where
  "validate_item d =
     (case (as_str (d_filename d), as_str (d_description d)) of
        (Some f, Some t) \<Rightarrow> Some \<lparr>filename = f, line_range = d_line_range d, description = t\<rparr>
      | _ \<Rightarrow> None)"

definition validate :: "finding_dict list \<Rightarrow> exn + GitleaksResults" where
  "validate ds =
     (case those (map validate_item ds) of
        None \<Rightarrow> Inl ValidationError
      | Some items \<Rightarrow> Inr \<lparr>findings = items\<rparr>)"

definition item_dump :: "GitleaksResultItem \<Rightarrow> json" where
  "item_dump i =
     JObj [(''filename'', JStr (filename i)),
           (''line_range'', JStr (line_range i)),
           (''description'', JStr (description i))]"

definition model_dump :: "GitleaksResults \<Rightarrow> json" where
  "model_dump r = JObj [(''findings'', JArr (map item_dump (findings r)))]"

definition lift :: "exn + 'a \<Rightarrow> 'a proc" where
  "lift r = (case r of Inl e \<Rightarrow> raise e | Inr x \<Rightarrow> return x)"

definition path_exists :: "world \<Rightarrow> string \<Rightarrow> bool" where
  "path_exists w p = (files w p \<noteq> None)"

text \<open>\<^verbatim>\<open>with open(report_path, 'r') as file: gitleaks_output = json.load(file)\<close>\<close>

definition load_report :: "env \<Rightarrow> string \<Rightarrow> json proc" where
  "load_report E p w =
     (case files w p of
        None \<Rightarrow> raise (OSError ''No such file or directory'') w
      | Some (Unreadable msg) \<Rightarrow> raise (OSError msg) w
      | Some (Regular t) \<Rightarrow>
          (case json_load E t of None \<Rightarrow> raise JSONDecodeError w | Some v \<Rightarrow> return v w))"

text \<open>\<^verbatim>\<open>with open(transformed_report_file, 'w') as file: json.dump(..., file, indent=4)\<close>\<close>

definition save_json :: "env \<Rightarrow> string \<Rightarrow> json \<Rightarrow> unit proc" where
  "save_json E p v w =
     (case write_json E p v w of Inl msg \<Rightarrow> raise (OSError msg) w | Inr w' \<Rightarrow> return () w')"

definition no_findings_message :: string where
  "no_findings_message =
     ''No findings detected. Ensure all repository files are correctly placed in your project''
     @ [CHR 0x27] @ ''s main directory for accurate scanning!''"

definition transform_results :: "env \<Rightarrow> string \<Rightarrow> unit proc" where
  "transform_results E report_path =
     next_do
       (\<lambda>w. when_do (\<not> path_exists w report_path)
              (write_error_message E ''Gitleaks report file not found''
                 (exit_value FILE_NOT_FOUND) report_path) w)
       (and_then (load_report E report_path) (\<lambda>gitleaks_output.
        and_then (lift (comprehension E gitleaks_output)) (\<lambda>ds.
        next_do
          (when_do (ds = [])
             (write_error_message E no_findings_message (exit_value NO_FINDINGS) report_path))
          (and_then (lift (validate ds)) (\<lambda>result.
           next_do (print (json_dumps E (model_dump result)))
             (and_then (create_with_timestamp ''transformed_report'' ''.json'') (\<lambda>report_file.
              save_json E (generate_filename report_file) (model_dump result))))))))"

subsection \<open>Checking the arguments, and the program\<close>

definition usage_message :: string where
  "usage_message =
     ''Usage: docker run --rm -v $(pwd):/code gitleaks-pipeline <gitleaks-args>'' @ [newline]
     @ ''Example: docker run --rm -v $(pwd):/code/ gitleaks-pipeline detect --no-git''"

text \<open>
  \<^verbatim>\<open>subprocess.run(["gitleaks", "--help"])\<close>: no \<^verbatim>\<open>check\<close>, so the exit status of the
  child does not matter.
\<close>

definition run_unchecked :: "env \<Rightarrow> string list \<Rightarrow> unit proc" where
  "run_unchecked E args w =
     (case subprocess_run E args w of
        (NotStarted msg, w') \<Rightarrow> raise (OSError msg) w'
      | (_, w') \<Rightarrow> return () w')"

definition argv_extend :: "string list \<Rightarrow> unit proc" where
  "argv_extend xs w = (Returned (), w\<lparr>argv := argv w @ xs\<rparr>)"

definition argv_remove :: "string \<Rightarrow> unit proc" where
  "argv_remove x w = (Returned (), w\<lparr>argv := remove1 x (argv w)\<rparr>)"

definition check_args :: "env \<Rightarrow> string \<Rightarrow> string proc" where
  "check_args E report_file =
     next_do
       (\<lambda>w. when_do (length (argv w) < 2)
              (write_error_message E usage_message (exit_value COMMAND_ERROR) report_file) w)
       (next_do
          (\<lambda>w. when_do (''--help'' \<in> set (argv w) \<or> ''-h'' \<in> set (argv w))
                 (next_do (run_unchecked E [''gitleaks'', ''--help'']) (sys_exit 0)) w)
          (next_do
             (\<lambda>w. when_do (''--report-path'' \<notin> set (argv w))
                    (argv_extend [''--report-path'', report_file]) w)
             (next_do
                (\<lambda>w. when_do (''--config'' \<in> set (argv w))
                       (argv_extend [''--config'', ''src/gitleaks.toml'']) w)
                (next_do
                   (\<lambda>w. when_do (''gitleaks'' \<in> set (drop 1 (argv w)))
                          (argv_remove ''gitleaks'') w)
                   (return report_file)))))"

definition main :: "env \<Rightarrow> unit proc" where
  "main E =
     and_then (create_with_timestamp ''report'' ''.json'') (\<lambda>rf.
     and_then (check_args E (generate_filename rf)) (\<lambda>report_file.
     next_do
       (\<lambda>w. run_gitleaks E (''gitleaks'' # drop 1 (argv w)) report_file w)
       (transform_results E report_file)))"

subsection \<open>The condensed finding, in the words of the specification\<close>





subsection \<open>Example runs\<close>

text \<open>
  Concrete surroundings on which the theorems below are instantiated: a parser that knows a
  few report texts, a one-line JSON printer, a child process with a fixed result, and a
  world with the given arguments and files in which nothing below \<^verbatim>\<open>/missing/\<close> can be
  opened for writing.
\<close>

fun ex_dumps :: "json \<Rightarrow> string" where
  "ex_dumps JNull = ''null''"
| "ex_dumps (JBool b) = (if b then ''true'' else ''false'')"
| "ex_dumps (JInt i) = str_int i"
| "ex_dumps (JFloat r) = r"
| "ex_dumps (JStr s) = [CHR 0x22] @ s @ [CHR 0x22]"
| "ex_dumps (JArr xs) = ''['' @ concat (map (\<lambda>x. ex_dumps x @ '','') xs) @ '']''"
| "ex_dumps (JObj kvs) =
     ''{'' @ concat (map (\<lambda>(k, v). [CHR 0x22] @ k @ [CHR 0x22] @ '':'' @ ex_dumps v @ '','') kvs)
     @ ''}''"

definition ex_load :: "string \<Rightarrow> json option" where
  \<open>ex_load =
     map_of
       [(''[]'', JArr []),
        (''[{"File": null}]'', JArr [JObj [(''File'', JNull)]]),
        (''[{"File": "a.txt", "StartLine": 1, "EndLine": 1, "Description": "x"}, {"EndLine": 6}]'',
         JArr [JObj [(''File'', JStr ''a.txt''), (''StartLine'', JInt 1), (''EndLine'', JInt 1),
                     (''Description'', JStr ''x'')],
               JObj [(''EndLine'', JInt 6)]])]\<close>

definition ex_env :: "(string list \<Rightarrow> world \<Rightarrow> child_result \<times> world) \<Rightarrow> env" where
  "ex_env child =
     \<lparr>json_load = ex_load, json_dumps = ex_dumps, repr_container = ex_dumps,
      subprocess_run = child\<rparr>"

definition child_fails :: "string \<Rightarrow> string list \<Rightarrow> world \<Rightarrow> child_result \<times> world" where
  "child_fails e_stderr args w = (Failed e_stderr, w)"

definition ex_world :: "string list \<Rightarrow> (string \<times> node) list \<Rightarrow> world" where
  "ex_world args fs =
     \<lparr>argv = args, files = map_of fs,
      open_w_err = (\<lambda>p. if starts_with ''/missing/'' p
                          then Some ''[Errno 2] No such file or directory'' else None),
      stdout = [], stderr = [],
      clock = (\<lambda>n. ''2024-05-01_10:00:0'' @ digits n), tick = 0\<rparr>"

section \<open>Properties\<close>

subsection \<open>The error reporter ends the process\<close>

lemma wem_ok:
  "open_w_err w P = None \<Longrightarrow>
   write_error_message E M C P w =
     (Exited C,
      w\<lparr>files := (files w)(P \<mapsto> Regular (json_dumps E (error_report C M))),
        stdout := stdout w
          @ ''[!] Please check the output file for more details: '' @ P @ [newline]\<rparr>)"
  by (simp add: write_error_message_def write_json_def next_do_def and_then_def print_def
      sys_exit_def)

lemma wem_fail:
  "open_w_err w P = Some e \<Longrightarrow>
   write_error_message E M C P w =
     (Exited C, w\<lparr>stdout := stdout w @ ''Error writing to output file: '' @ e @ [newline]\<rparr>)"
  by (simp add: write_error_message_def write_json_def next_do_def and_then_def print_def
      sys_exit_def)

lemma wem_exits: "fst (write_error_message E M C P w) = Exited C"
  by (cases "open_w_err w P") (simp_all add: wem_ok wem_fail)

text \<open>A statement after a call of the error reporter is never reached.\<close>

lemma wem_case:
  "(case write_error_message E M C P w of
      (Returned x, w') \<Rightarrow> f x w'
    | (Exited c, w') \<Rightarrow> (Exited c, w')
    | (Raised e, w') \<Rightarrow> (Raised e, w')) = write_error_message E M C P w"
  by (cases "open_w_err w P") (simp_all add: wem_ok wem_fail)

lemma next_do_wem:
  "next_do (write_error_message E M C P) n w = write_error_message E M C P w"
  by (simp add: next_do_def and_then_def wem_case)

lemma next_do_returned: "m w = (Returned (), w') \<Longrightarrow> next_do m n w = n w'"
  by (simp add: next_do_def and_then_def)

text \<open>
  C2. For every message \<open>M\<close>, code \<open>C\<close> and path \<open>P\<close>, \<open>write_error_message\<close> ends the
  process with exit code \<open>C\<close> and never returns. When \<open>P\<close> can be opened for writing, the
  file then holds the printed dict with exactly the keys \<^verbatim>\<open>exit_code\<close> (\<open>C\<close>) and
  \<^verbatim>\<open>error_message\<close> (\<open>M\<close>) and the notice pointing to the file has been printed to
  standard output; when the file cannot be opened, the failure has been printed to
  standard output, no file has changed, and the exit code is the same \<open>C\<close>.
\<close>

theorem write_error_message_terminal:
  "fst (write_error_message E M C P w) = Exited C
   \<and> (open_w_err w P = None \<longrightarrow>
        write_error_message E M C P w =
          (Exited C,
           w\<lparr>files := (files w)(P \<mapsto> Regular (json_dumps E
                  (JObj [(''exit_code'', JInt C), (''error_message'', JStr M)]))),
             stdout := stdout w
               @ ''[!] Please check the output file for more details: '' @ P @ [newline]\<rparr>))
   \<and> (\<forall>e. open_w_err w P = Some e \<longrightarrow>
        write_error_message E M C P w =
          (Exited C,
           w\<lparr>stdout := stdout w @ ''Error writing to output file: '' @ e @ [newline]\<rparr>))"
  using wem_ok [of w P E M C] wem_fail [of w P _ E M C] wem_exits [of E M C P w]
  by (simp add: error_report_def)

theorem write_error_message_terminal_witness:
  "open_w_err (ex_world [] []) ''error.json'' = None
   \<and> write_error_message (ex_env (child_fails [])) ''Custom error'' 123 ''error.json''
         (ex_world [] []) =
       (Exited 123,
        (ex_world [] [])\<lparr>files := [''error.json'' \<mapsto> Regular (ex_dumps
              (JObj [(''exit_code'', JInt 123), (''error_message'', JStr ''Custom error'')]))],
          stdout := ''[!] Please check the output file for more details: error.json''
            @ [newline]\<rparr>)
   \<and> open_w_err (ex_world [] []) ''/missing/error.json''
       = Some ''[Errno 2] No such file or directory''
   \<and> write_error_message (ex_env (child_fails [])) ''Custom error'' 123 ''/missing/error.json''
         (ex_world [] []) =
       (Exited 123,
        (ex_world [] [])\<lparr>stdout :=
           ''Error writing to output file: [Errno 2] No such file or directory''
           @ [newline]\<rparr>)"
  using
    write_error_message_terminal
      [of "ex_env (child_fails [])" "''Custom error''" 123 "''error.json''" "ex_world [] []"]
    write_error_message_terminal
      [of "ex_env (child_fails [])" "''Custom error''" 123 "''/missing/error.json''"
          "ex_world [] []"]
  by (simp add: ex_world_def ex_env_def)

lemmas ex_simps = ex_world_def ex_env_def ex_load_def child_fails_def

lemma digits_less_10: "n < 10 \<Longrightarrow> digits n = [''0123456789'' ! n]"
  by (simp add: digits.simps)

subsection \<open>Transforming the report\<close>

text \<open>
  What \<open>transform_results\<close> does, by the state of the report file: missing, holding
  JSON, or holding something else.
\<close>

lemma tr_missing:
  "files w P = None \<Longrightarrow>
   transform_results E P w = write_error_message E ''Gitleaks report file not found'' 3 P w"
  by (simp add: transform_results_def path_exists_def when_do_def next_do_def and_then_def
      wem_case)

lemma tr_loaded:
  "files w P = Some (Regular t) \<Longrightarrow> json_load E t = Some v \<Longrightarrow>
   transform_results E P w =
     (case comprehension E v of
        Inl e \<Rightarrow> (Raised e, w)
      | Inr ds \<Rightarrow>
          if ds = [] then write_error_message E no_findings_message 4 P w
          else (case validate ds of
                  Inl e \<Rightarrow> (Raised e, w)
                | Inr result \<Rightarrow>
                    (case open_w_err w (''transformed_report_'' @ clock w (tick w) @ ''.json'') of
                       Some msg \<Rightarrow>
                         (Raised (OSError msg),
                          w\<lparr>stdout := stdout w @ json_dumps E (model_dump result) @ [newline],
                            tick := Suc (tick w)\<rparr>)
                     | None \<Rightarrow>
                         (Returned (),
                          w\<lparr>stdout := stdout w @ json_dumps E (model_dump result) @ [newline],
                            tick := Suc (tick w),
                            files := (files w)(''transformed_report_'' @ clock w (tick w) @ ''.json''
                               \<mapsto> Regular (json_dumps E (model_dump result)))\<rparr>))))"
  by (simp add: transform_results_def path_exists_def when_do_def wem_case
      next_do_def and_then_def return_def load_report_def lift_def raise_def print_def
      create_with_timestamp_def generate_filename_def save_json_def write_json_def
      split: sum.splits option.splits)

lemma tr_not_json:
  "files w P = Some (Regular t) \<Longrightarrow> json_load E t = None \<Longrightarrow>
   transform_results E P w = (Raised JSONDecodeError, w)"
  by (simp add: transform_results_def path_exists_def when_do_def 
      next_do_def and_then_def return_def load_report_def raise_def)






text \<open>
  C7. For every path \<open>P\<close> that does not exist, \<open>transform_results P\<close> is the call of the
  error reporter with the message \<^verbatim>\<open>Gitleaks report file not found\<close>, the code of
  \<open>FILE_NOT_FOUND\<close> and the destination \<open>P\<close> itself; the process exits with code 3.
\<close>

theorem transform_results_file_not_found:
  "files w P = None \<Longrightarrow>
   transform_results E P w =
     write_error_message E ''Gitleaks report file not found'' (exit_value FILE_NOT_FOUND) P w
   \<and> fst (transform_results E P w) = Exited 3"
  by (simp add: tr_missing wem_exits)

theorem transform_results_file_not_found_witness:
  "files (ex_world [] []) ''missing_report.json'' = None
   \<and> transform_results (ex_env (child_fails [])) ''missing_report.json'' (ex_world [] []) =
       (Exited 3,
        (ex_world [] [])\<lparr>files := [''missing_report.json'' \<mapsto> Regular (ex_dumps
              (error_report 3 ''Gitleaks report file not found''))],
          stdout := ''[!] Please check the output file for more details: missing_report.json''
            @ [newline]\<rparr>)"
  using transform_results_file_not_found
      [of "ex_world [] []" "''missing_report.json''" "ex_env (child_fails [])"]
    wem_ok [of "ex_world [] []" "''missing_report.json''" "ex_env (child_fails [])"
      "''Gitleaks report file not found''" 3]
  by (simp add: ex_simps)

text \<open>
  C6. For every report file whose text parses to the empty JSON array, \<open>transform_results\<close>
  is the call of the error reporter with the code of \<open>NO_FINDINGS\<close> and the path of the
  report as destination. The process exits with code 4; no other file is created or
  changed and no new timestamp is taken, so there is no \<^verbatim>\<open>transformed_report\<close> file; and
  standard output receives the reporter's one notice and no serialised result. The report
  path holds the error report when it can be opened for writing.
\<close>

theorem transform_results_no_findings:
  assumes "files w P = Some (Regular t)" and "json_load E t = Some (JArr [])"
  shows
    "transform_results E P w =
       write_error_message E no_findings_message (exit_value NO_FINDINGS) P w
     \<and> fst (transform_results E P w) = Exited 4
     \<and> tick (snd (transform_results E P w)) = tick w
     \<and> (\<forall>q. q \<noteq> P \<longrightarrow> files (snd (transform_results E P w)) q = files w q)
     \<and> (open_w_err w P = None \<longrightarrow>
          files (snd (transform_results E P w)) P =
            Some (Regular (json_dumps E
              (JObj [(''exit_code'', JInt 4), (''error_message'', JStr no_findings_message)])))
          \<and> stdout (snd (transform_results E P w)) =
              stdout w @ ''[!] Please check the output file for more details: '' @ P @ [newline])
     \<and> (\<forall>e. open_w_err w P = Some e \<longrightarrow>
          files (snd (transform_results E P w)) = files w
          \<and> stdout (snd (transform_results E P w)) =
              stdout w @ ''Error writing to output file: '' @ e @ [newline])"
proof -
  have eq: "transform_results E P w = write_error_message E no_findings_message 4 P w"
    using tr_loaded [OF assms] by (simp add: comprehension_def py_iter_def)
  show ?thesis
    unfolding eq
    by (cases "open_w_err w P") (simp_all add: wem_ok wem_fail error_report_def)
qed

theorem transform_results_no_findings_witness:
  "fst (transform_results (ex_env (child_fails [])) ''empty.json''
          (ex_world [] [(''empty.json'', Regular ''[]'')])) = Exited 4
   \<and> files (snd (transform_results (ex_env (child_fails [])) ''empty.json''
          (ex_world [] [(''empty.json'', Regular ''[]'')]))) ''empty.json''
      = Some (Regular (ex_dumps
              (JObj [(''exit_code'', JInt 4), (''error_message'', JStr no_findings_message)])))
   \<and> files (snd (transform_results (ex_env (child_fails [])) ''empty.json''
          (ex_world [] [(''empty.json'', Regular ''[]'')])))
        ''transformed_report_2024-05-01_10:00:00.json'' = None"
proof -
  have f: "files (ex_world [] [(''empty.json'', Regular ''[]'')]) ''empty.json''
      = Some (Regular ''[]'')"
    by (simp add: ex_world_def)
  have j: "json_load (ex_env (child_fails [])) ''[]'' = Some (JArr [])"
    by (simp add: ex_env_def ex_load_def)
  have o: "open_w_err (ex_world [] [(''empty.json'', Regular ''[]'')]) ''empty.json'' = None"
    by (simp add: ex_world_def)
  have n: "files (ex_world [] [(''empty.json'', Regular ''[]'')])
      ''transformed_report_2024-05-01_10:00:00.json'' = None"
    by (simp add: ex_world_def)
  note t = transform_results_no_findings [OF f j]
  from t have a: "fst (transform_results (ex_env (child_fails [])) ''empty.json''
          (ex_world [] [(''empty.json'', Regular ''[]'')])) = Exited 4"
    by (rule conjunct1 [OF conjunct2])
  from t o have b: "files (snd (transform_results (ex_env (child_fails [])) ''empty.json''
          (ex_world [] [(''empty.json'', Regular ''[]'')]))) ''empty.json''
      = Some (Regular (json_dumps (ex_env (child_fails []))
              (JObj [(''exit_code'', JInt 4), (''error_message'', JStr no_findings_message)])))"
    by blast
  from t have "\<forall>q. q \<noteq> ''empty.json'' \<longrightarrow>
      files (snd (transform_results (ex_env (child_fails [])) ''empty.json''
          (ex_world [] [(''empty.json'', Regular ''[]'')]))) q
      = files (ex_world [] [(''empty.json'', Regular ''[]'')]) q"
    by blast
  then have c: "files (snd (transform_results (ex_env (child_fails [])) ''empty.json''
          (ex_world [] [(''empty.json'', Regular ''[]'')])))
        ''transformed_report_2024-05-01_10:00:00.json'' = None"
    using n by simp
  from a b c show ?thesis
    by (simp add: ex_env_def)
qed

text \<open>
  C8. For every existing report file whose text is not JSON, \<open>transform_results\<close> ends
  with the parser's \<^verbatim>\<open>JSONDecodeError\<close> uncaught: there is no exit code, and the world is
  as before, so no error report has been written and nothing has been printed.
\<close>

theorem transform_results_not_json:
  "files w P = Some (Regular t) \<Longrightarrow> json_load E t = None \<Longrightarrow>
   transform_results E P w = (Raised JSONDecodeError, w)"
  by (rule tr_not_json)

theorem transform_results_not_json_witness:
  "transform_results (ex_env (child_fails [])) ''invalid.json''
     (ex_world [] [(''invalid.json'', Regular ''Not a JSON content'')])
   = (Raised JSONDecodeError, ex_world [] [(''invalid.json'', Regular ''Not a JSON content'')])"
  using transform_results_not_json
      [of "ex_world [] [(''invalid.json'', Regular ''Not a JSON content'')]" "''invalid.json''"
          "''Not a JSON content''" "ex_env (child_fails [])"]
  by (simp add: ex_simps)

subsection \<open>Classifying a failure of gitleaks\<close>

lemmas str_simps = first_line_def strip_def py_isspace_def newline_def
  is_command_error_def is_argument_or_flag_error_def is_no_git_folder_def

text \<open>
  The handler of \<^verbatim>\<open>CalledProcessError\<close>, statement by statement: a check that matches
  calls the error reporter, which ends the process, so that the statements after it are
  not reached.
\<close>

lemma opce_cases:
  "on_called_process_error E err rf w =
     (if is_command_error (first_line (strip err))
      then write_error_message E (first_line (strip err)) 2 rf w
      else if is_argument_or_flag_error (first_line (strip err))
      then write_error_message E (first_line (strip err)) 1 rf w
      else if is_no_git_folder err
      then write_error_message E no_git_message 5 rf w
      else if verbose w then (Returned (), w\<lparr>stderr := stderr w @ err\<rparr>)
      else (Returned (), w))"
  by (simp add: on_called_process_error_def Let_def when_do_def next_do_wem
      next_do_returned return_def stderr_write_def)

lemma run_gitleaks_failed:
  "subprocess_run E args w = (Failed err, w') \<Longrightarrow>
   run_gitleaks E args rf w = on_called_process_error E err rf w'"
  by (simp add: run_gitleaks_def)

lemma wem_stderr: "stderr (snd (write_error_message E M C P w)) = stderr w"
  by (cases "open_w_err w P") (simp_all add: wem_ok wem_fail)

lemma main_unfold:
  "main E w0 =
     (case check_args E (''report_'' @ clock w0 (tick w0) @ ''.json'')
             (w0\<lparr>tick := Suc (tick w0)\<rparr>) of
        (Returned report_file, w) \<Rightarrow>
          (case run_gitleaks E (''gitleaks'' # drop 1 (argv w)) report_file w of
             (Returned u, w') \<Rightarrow> transform_results E report_file w'
           | (Exited c, w') \<Rightarrow> (Exited c, w')
           | (Raised e, w') \<Rightarrow> (Raised e, w'))
      | (Exited c, w) \<Rightarrow> (Exited c, w)
      | (Raised e, w) \<Rightarrow> (Raised e, w))"
  by (simp add: main_def and_then_def next_do_def create_with_timestamp_def
      generate_filename_def split: prod.splits outcome.splits)

lemma wem_pair:
  "write_error_message E M C P w = (Exited C, snd (write_error_message E M C P w))"
  by (metis wem_exits prod.collapse)

lemma wem_case_exit:
  "(case write_error_message E M C P w of
      (Returned x, w') \<Rightarrow> f x w'
    | (Exited c, w') \<Rightarrow> (Exited c, w')
    | (Raised e, w') \<Rightarrow> (Raised e, w')) = (Exited C, snd (write_error_message E M C P w))"
  by (cases "open_w_err w P") (simp_all add: wem_ok wem_fail)

lemma check_args_usage:
  "length (argv w) < 2 \<Longrightarrow>
   check_args E rf w = (Exited 2, snd (write_error_message E usage_message 2 rf w))"
  by (simp add: check_args_def when_do_def next_do_def and_then_def wem_case_exit)

lemma check_args_returns:
  assumes "2 \<le> length (argv w)" and "''--help'' \<notin> set (argv w)" and "''-h'' \<notin> set (argv w)"
  shows
    "check_args E rf w =
       (let a1 = argv w @ (if ''--report-path'' \<notin> set (argv w) then [''--report-path'', rf] else []);
            a2 = a1 @ (if ''--config'' \<in> set a1 then [''--config'', ''src/gitleaks.toml''] else [])
        in (Returned rf,
            w\<lparr>argv := if ''gitleaks'' \<in> set (drop 1 a2) then remove1 ''gitleaks'' a2 else a2\<rparr>))"
  using assms
  by (simp add: check_args_def when_do_def next_do_def and_then_def return_def
      argv_extend_def argv_remove_def Let_def)

text \<open>
  C3 (as amended). When gitleaks fails, the three checks are tried in the order of the
  source and the first that matches decides: the error reporter is called with that
  check's message and exit code, and the process exits with that code. The checks after
  it are not run, whether or not they would match.
\<close>

theorem run_gitleaks_first_match_wins:
  assumes "subprocess_run E args w = (Failed err, w')"
  shows
    "(let m = first_line (strip err) in
      (is_command_error m \<longrightarrow>
         run_gitleaks E args rf w =
           write_error_message E m (exit_value COMMAND_ERROR) rf w'
         \<and> fst (run_gitleaks E args rf w) = Exited 2)
      \<and> (\<not> is_command_error m \<and> is_argument_or_flag_error m \<longrightarrow>
         run_gitleaks E args rf w =
           write_error_message E m (exit_value ARGUMENT_OR_FLAG_ERROR) rf w'
         \<and> fst (run_gitleaks E args rf w) = Exited 1)
      \<and> (\<not> is_command_error m \<and> \<not> is_argument_or_flag_error m \<and> is_no_git_folder err \<longrightarrow>
         run_gitleaks E args rf w =
           write_error_message E no_git_message (exit_value NO_GIT_FOLDER) rf w'
         \<and> fst (run_gitleaks E args rf w) = Exited 5))"
  by (simp add: run_gitleaks_failed [OF assms] opce_cases wem_exits Let_def)

theorem run_gitleaks_first_match_wins_witness:
  "\<not> is_command_error (first_line (strip
      (''Error: unknown command'' @ [newline] @ ''could not create Git cmd'')))
   \<and> is_argument_or_flag_error (first_line (strip
      (''Error: unknown command'' @ [newline] @ ''could not create Git cmd'')))
   \<and> is_no_git_folder (''Error: unknown command'' @ [newline] @ ''could not create Git cmd'')
   \<and> fst (run_gitleaks
        (ex_env (child_fails
          (''Error: unknown command'' @ [newline] @ ''could not create Git cmd'')))
        [''gitleaks'', ''scan''] ''report.json''
        (ex_world [''transform_results.py'', ''scan''] [])) = Exited 1"
  using run_gitleaks_first_match_wins
    [of "ex_env (child_fails
          (''Error: unknown command'' @ [newline] @ ''could not create Git cmd''))"
        "[''gitleaks'', ''scan'']" "ex_world [''transform_results.py'', ''scan''] []"
        "''Error: unknown command'' @ [newline] @ ''could not create Git cmd''"
        "ex_world [''transform_results.py'', ''scan''] []" "''report.json''"]
  by (simp add: ex_env_def child_fails_def str_simps wem_exits)

text \<open>
  C3 as stated, with the last matching check deciding, fails: on a diagnostic whose first
  line holds \<^verbatim>\<open>unknown flag:\<close> and whose text holds \<^verbatim>\<open>could not create Git cmd\<close>, the
  first and the third check match, and the report and the exit code are those of the
  first (\<open>COMMAND_ERROR\<close>, 2), not of the third (\<open>NO_GIT_FOLDER\<close>, 5).
\<close>

theorem run_gitleaks_first_match_wins_counterexample:
  "is_command_error (first_line (strip
      (''Error: unknown flag: --bogus'' @ [newline] @ ''could not create Git cmd'')))
   \<and> is_no_git_folder
      (''Error: unknown flag: --bogus'' @ [newline] @ ''could not create Git cmd'')
   \<and> run_gitleaks
        (ex_env (child_fails
          (''Error: unknown flag: --bogus'' @ [newline] @ ''could not create Git cmd'')))
        [''gitleaks'', ''detect'', ''--bogus''] ''report.json''
        (ex_world [''transform_results.py'', ''detect'', ''--bogus''] [])
      = (Exited 2,
         (ex_world [''transform_results.py'', ''detect'', ''--bogus''] [])
         \<lparr>files := [''report.json'' \<mapsto> Regular (ex_dumps
             (JObj [(''exit_code'', JInt 2),
                    (''error_message'', JStr ''Error: unknown flag: --bogus'')]))],
           stdout := ''[!] Please check the output file for more details: report.json''
             @ [newline]\<rparr>)"
  by (simp add: run_gitleaks_def opce_cases wem_ok ex_simps str_simps error_report_def)

text \<open>
  C4 (as amended). When gitleaks fails and \<^verbatim>\<open>--verbose\<close> or \<^verbatim>\<open>-v\<close> is among the
  arguments, the captured error stream is written unchanged to standard error if no
  classification check matched, and \<open>run_gitleaks\<close> returns. If a check matched, the
  run is the call of the error reporter for the first matching check, which exits the
  process with that check's code before the echo: nothing is written to standard error.
\<close>

theorem run_gitleaks_verbose_echo:
  assumes "subprocess_run E args w = (Failed err, w')" and "verbose w'"
  shows
    "(let m = first_line (strip err);
          code = (if is_command_error m then exit_value COMMAND_ERROR
                  else if is_argument_or_flag_error m then exit_value ARGUMENT_OR_FLAG_ERROR
                  else exit_value NO_GIT_FOLDER)
      in
      (\<not> is_command_error m \<and> \<not> is_argument_or_flag_error m \<and> \<not> is_no_git_folder err \<longrightarrow>
         run_gitleaks E args rf w = (Returned (), w'\<lparr>stderr := stderr w' @ err\<rparr>))
      \<and> (is_command_error m \<or> is_argument_or_flag_error m \<or> is_no_git_folder err \<longrightarrow>
         run_gitleaks E args rf w =
           write_error_message E
             (if is_command_error m \<or> is_argument_or_flag_error m then m else no_git_message)
             code rf w'
         \<and> fst (run_gitleaks E args rf w) = Exited code
         \<and> stderr (snd (run_gitleaks E args rf w)) = stderr w'))"
  using assms(2)
  by (simp add: run_gitleaks_failed [OF assms(1)] opce_cases wem_exits wem_stderr Let_def)

theorem run_gitleaks_verbose_echo_witness:
  "verbose (ex_world [''transform_results.py'', ''detect'', ''-v''] [])
   \<and> run_gitleaks (ex_env (child_fails ''fatal: out of memory''))
        [''gitleaks'', ''detect'', ''-v''] ''report.json''
        (ex_world [''transform_results.py'', ''detect'', ''-v''] [])
      = (Returned (),
         (ex_world [''transform_results.py'', ''detect'', ''-v''] [])
         \<lparr>stderr := ''fatal: out of memory''\<rparr>)
   \<and> fst (run_gitleaks (ex_env (child_fails ''flag needs an argument: --config''))
        [''gitleaks'', ''detect'', ''-v''] ''report.json''
        (ex_world [''transform_results.py'', ''detect'', ''-v''] [])) = Exited 2
   \<and> stderr (snd (run_gitleaks (ex_env (child_fails ''flag needs an argument: --config''))
        [''gitleaks'', ''detect'', ''-v''] ''report.json''
        (ex_world [''transform_results.py'', ''detect'', ''-v''] []))) = []"
proof -
  let ?w = "ex_world [''transform_results.py'', ''detect'', ''-v''] []"
  have v: "verbose ?w"
    by (simp add: verbose_def ex_world_def)
  have e: "stderr ?w = []"
    by (simp add: ex_world_def)
  have h1: "subprocess_run (ex_env (child_fails ''fatal: out of memory''))
      [''gitleaks'', ''detect'', ''-v''] ?w = (Failed ''fatal: out of memory'', ?w)"
    by (simp add: ex_env_def child_fails_def)
  have n1: "\<not> is_command_error (first_line (strip ''fatal: out of memory''))
      \<and> \<not> is_argument_or_flag_error (first_line (strip ''fatal: out of memory''))
      \<and> \<not> is_no_git_folder ''fatal: out of memory''"
    by (simp add: str_simps)
  have h2: "subprocess_run (ex_env (child_fails ''flag needs an argument: --config''))
      [''gitleaks'', ''detect'', ''-v''] ?w = (Failed ''flag needs an argument: --config'', ?w)"
    by (simp add: ex_env_def child_fails_def)
  have n2: "is_command_error (first_line (strip ''flag needs an argument: --config''))"
    by (simp add: str_simps)
  from run_gitleaks_verbose_echo [OF h1 v, of "''report.json''"] n1
  have a: "run_gitleaks (ex_env (child_fails ''fatal: out of memory''))
        [''gitleaks'', ''detect'', ''-v''] ''report.json'' ?w
      = (Returned (), ?w\<lparr>stderr := stderr ?w @ ''fatal: out of memory''\<rparr>)"
    by (simp add: Let_def)
  from run_gitleaks_verbose_echo [OF h2 v, of "''report.json''"] n2
  have b: "fst (run_gitleaks (ex_env (child_fails ''flag needs an argument: --config''))
        [''gitleaks'', ''detect'', ''-v''] ''report.json'' ?w) = Exited 2
      \<and> stderr (snd (run_gitleaks (ex_env (child_fails ''flag needs an argument: --config''))
        [''gitleaks'', ''detect'', ''-v''] ''report.json'' ?w)) = stderr ?w"
    by (simp add: Let_def wem_exits wem_stderr)
  from v a b e show ?thesis
    by simp
qed

text \<open>
  C4 as stated, with the echo regardless of the classification, fails: with
  \<^verbatim>\<open>--verbose\<close> among the arguments and a diagnostic holding \<^verbatim>\<open>unknown flag:\<close>, the
  process exits with code 2 and standard error is still empty.
\<close>

theorem run_gitleaks_verbose_echo_counterexample:
  "verbose (ex_world [''transform_results.py'', ''detect'', ''--bogus'', ''--verbose''] [])
   \<and> fst (run_gitleaks (ex_env (child_fails ''Error: unknown flag: --bogus''))
        [''gitleaks'', ''detect'', ''--bogus'', ''--verbose''] ''report.json''
        (ex_world [''transform_results.py'', ''detect'', ''--bogus'', ''--verbose''] []))
      = Exited 2
   \<and> stderr (snd (run_gitleaks (ex_env (child_fails ''Error: unknown flag: --bogus''))
        [''gitleaks'', ''detect'', ''--bogus'', ''--verbose''] ''report.json''
        (ex_world [''transform_results.py'', ''detect'', ''--bogus'', ''--verbose''] [])))
      = []"
  by (simp add: run_gitleaks_def opce_cases wem_ok ex_simps str_simps verbose_def)

text \<open>
  C5 (as amended). The diagnostic of the first two checks is the first line of the error
  stream after \<^verbatim>\<open>strip()\<close> has removed the white space at both of its ends, that is
  \<^verbatim>\<open>e.stderr.strip().split('\n')[0]\<close>; the third check reads the whole stream as
  captured. When gitleaks fails and none of the checks matches on these, \<open>run_gitleaks\<close>
  returns: no file is written, nothing is printed to standard output, and there is no
  exit. Its caller \<open>main\<close> goes on to \<open>transform_results\<close> with the same report path.
\<close>

theorem run_gitleaks_unclassified_returns:
  assumes "subprocess_run E args w = (Failed err, w')"
    and "\<not> is_command_error (first_line (strip err))"
    and "\<not> is_argument_or_flag_error (first_line (strip err))"
    and "\<not> is_no_git_folder err"
  shows
    "run_gitleaks E args rf w =
       (Returned (), if verbose w' then w'\<lparr>stderr := stderr w' @ err\<rparr> else w')
     \<and> files (snd (run_gitleaks E args rf w)) = files w'
     \<and> stdout (snd (run_gitleaks E args rf w)) = stdout w'
     \<and> (\<forall>w0. check_args E (''report_'' @ clock w0 (tick w0) @ ''.json'')
                (w0\<lparr>tick := Suc (tick w0)\<rparr>) = (Returned rf, w)
              \<and> args = ''gitleaks'' # drop 1 (argv w) \<longrightarrow>
            main E w0 = transform_results E rf (snd (run_gitleaks E args rf w)))"
proof -
  have r: "run_gitleaks E args rf w =
       (Returned (), if verbose w' then w'\<lparr>stderr := stderr w' @ err\<rparr> else w')"
    using assms by (simp add: run_gitleaks_failed opce_cases)
  have m: "main E w0 = transform_results E rf (snd (run_gitleaks E args rf w))"
    if c: "check_args E (''report_'' @ clock w0 (tick w0) @ ''.json'')
             (w0\<lparr>tick := Suc (tick w0)\<rparr>) = (Returned rf, w)"
      and a: "args = ''gitleaks'' # drop 1 (argv w)" for w0
  proof -
    have "main E w0 =
        (case run_gitleaks E args rf w of
           (Returned u, w') \<Rightarrow> transform_results E rf w'
         | (Exited c, w') \<Rightarrow> (Exited c, w')
         | (Raised e, w') \<Rightarrow> (Raised e, w'))"
      unfolding main_unfold c a by simp
    then show ?thesis by (simp add: r)
  qed
  from m show ?thesis
    by (simp add: r)
qed

theorem run_gitleaks_unclassified_returns_witness:
  "run_gitleaks (ex_env (child_fails ''fatal: out of memory''))
      [''gitleaks'', ''detect'', ''--report-path'', ''report_2024-05-01_10:00:00.json'']
      ''report_2024-05-01_10:00:00.json''
      ((ex_world [''transform_results.py'', ''detect''] [])
         \<lparr>argv := [''transform_results.py'', ''detect'', ''--report-path'',
                    ''report_2024-05-01_10:00:00.json''], tick := 1\<rparr>)
    = (Returned (),
       (ex_world [''transform_results.py'', ''detect''] [])
         \<lparr>argv := [''transform_results.py'', ''detect'', ''--report-path'',
                    ''report_2024-05-01_10:00:00.json''], tick := 1\<rparr>)
   \<and> main (ex_env (child_fails ''fatal: out of memory''))
        (ex_world [''transform_results.py'', ''detect''] [])
      = transform_results (ex_env (child_fails ''fatal: out of memory''))
          ''report_2024-05-01_10:00:00.json''
          ((ex_world [''transform_results.py'', ''detect''] [])
             \<lparr>argv := [''transform_results.py'', ''detect'', ''--report-path'',
                        ''report_2024-05-01_10:00:00.json''], tick := 1\<rparr>)
   \<and> fst (main (ex_env (child_fails ''fatal: out of memory''))
        (ex_world [''transform_results.py'', ''detect''] [])) = Exited 3"
proof -
  let ?E = "ex_env (child_fails ''fatal: out of memory'')"
  let ?u = "ex_world [''transform_results.py'', ''detect''] []"
  let ?rf = "''report_2024-05-01_10:00:00.json''"
  let ?w = "?u\<lparr>argv := [''transform_results.py'', ''detect'', ''--report-path'', ?rf],
                 tick := 1\<rparr>"
  let ?args = "[''gitleaks'', ''detect'', ''--report-path'', ?rf]"
  have h: "subprocess_run ?E ?args ?w = (Failed ''fatal: out of memory'', ?w)"
    by (simp add: ex_env_def child_fails_def)
  have n1: "\<not> is_command_error (first_line (strip ''fatal: out of memory''))"
    and n2: "\<not> is_argument_or_flag_error (first_line (strip ''fatal: out of memory''))"
    and n3: "\<not> is_no_git_folder ''fatal: out of memory''"
    by (simp_all add: str_simps)
  have nv: "\<not> verbose ?w"
    by (simp add: verbose_def ex_world_def)
  have c: "check_args ?E (''report_'' @ clock ?u (tick ?u) @ ''.json'')
      (?u\<lparr>tick := Suc (tick ?u)\<rparr>) = (Returned ?rf, ?w)"
    by (simp add: check_args_returns ex_world_def digits_less_10 Let_def)
  have a: "?args = ''gitleaks'' # drop 1 (argv ?w)"
    by simp
  note t = run_gitleaks_unclassified_returns [OF h n1 n2 n3, of ?rf]
  from t nv have r: "run_gitleaks ?E ?args ?rf ?w = (Returned (), ?w)"
    by simp
  from t have "\<forall>w0. check_args ?E (''report_'' @ clock w0 (tick w0) @ ''.json'')
                (w0\<lparr>tick := Suc (tick w0)\<rparr>) = (Returned ?rf, ?w)
              \<and> ?args = ''gitleaks'' # drop 1 (argv ?w) \<longrightarrow>
            main ?E w0 = transform_results ?E ?rf (snd (run_gitleaks ?E ?args ?rf ?w))"
    by blast
  with c a have m: "main ?E ?u = transform_results ?E ?rf (snd (run_gitleaks ?E ?args ?rf ?w))"
    by blast
  have f: "files ?w ?rf = None"
    by (simp add: ex_world_def)
  have x: "fst (transform_results ?E ?rf ?w) = Exited 3"
    unfolding tr_missing [OF f] by (rule wem_exits)
  from r m x show ?thesis
    by simp
qed

text \<open>
  C5 as stated, with the first line of the error stream itself as the diagnostic, fails:
  the stream that is a line break followed by \<^verbatim>\<open>unknown flag: x\<close> has an empty first
  line, which matches nothing, and does not hold \<^verbatim>\<open>could not create Git cmd\<close>; yet the
  stripped stream begins with \<^verbatim>\<open>unknown flag:\<close>, the first check matches, the error
  report is written and the process exits with code 2.
\<close>

theorem run_gitleaks_unclassified_returns_counterexample:
  "\<not> is_command_error (first_line ([newline] @ ''unknown flag: x''))
   \<and> \<not> is_argument_or_flag_error (first_line ([newline] @ ''unknown flag: x''))
   \<and> \<not> is_no_git_folder ([newline] @ ''unknown flag: x'')
   \<and> run_gitleaks (ex_env (child_fails ([newline] @ ''unknown flag: x'')))
        [''gitleaks'', ''detect'', ''-x''] ''report.json''
        (ex_world [''transform_results.py'', ''detect'', ''-x''] [])
      = (Exited 2,
         (ex_world [''transform_results.py'', ''detect'', ''-x''] [])
         \<lparr>files := [''report.json'' \<mapsto> Regular (ex_dumps
             (JObj [(''exit_code'', JInt 2), (''error_message'', JStr ''unknown flag: x'')]))],
           stdout := ''[!] Please check the output file for more details: report.json''
             @ [newline]\<rparr>)"
  by (simp add: run_gitleaks_def opce_cases wem_ok ex_simps str_simps error_report_def)

subsection \<open>Checking the arguments\<close>

text \<open>
  C9 (as amended). When \<open>check_args\<close> returns (two arguments or more, no help flag), it
  has appended \<^verbatim>\<open>--report-path\<close> and the report file unless \<^verbatim>\<open>--report-path\<close> was
  given, and then the two tokens \<^verbatim>\<open>--config\<close>, \<^verbatim>\<open>src/gitleaks.toml\<close> whenever the
  token \<^verbatim>\<open>--config\<close> occurs in the list, whether or not the caller gave it a value. The
  caller's own tokens stay where they were, and the appended pair ends the list.
\<close>

theorem check_args_config:
  assumes "2 \<le> length (argv w)" and "''--help'' \<notin> set (argv w)" and "''-h'' \<notin> set (argv w)"
  shows
    "(let a1 = argv w @ (if ''--report-path'' \<notin> set (argv w) then [''--report-path'', rf] else []);
          a2 = a1 @ (if ''--config'' \<in> set a1 then [''--config'', ''src/gitleaks.toml''] else [])
      in check_args E rf w =
           (Returned rf,
            w\<lparr>argv := if ''gitleaks'' \<in> set (drop 1 a2) then remove1 ''gitleaks'' a2 else a2\<rparr>))
     \<and> (''--config'' \<in> set (argv w) \<longrightarrow>
          (\<exists>pre. argv (snd (check_args E rf w)) = pre @ [''--config'', ''src/gitleaks.toml'']))"
proof -
  have eq: "check_args E rf w =
       (let a1 = argv w @ (if ''--report-path'' \<notin> set (argv w) then [''--report-path'', rf] else []);
            a2 = a1 @ (if ''--config'' \<in> set a1 then [''--config'', ''src/gitleaks.toml''] else [])
        in (Returned rf,
            w\<lparr>argv := if ''gitleaks'' \<in> set (drop 1 a2) then remove1 ''gitleaks'' a2 else a2\<rparr>))"
    by (rule check_args_returns [OF assms])
  have suffix: "\<exists>pre. argv (snd (check_args E rf w)) = pre @ [''--config'', ''src/gitleaks.toml'']"
    if c: "''--config'' \<in> set (argv w)"
  proof -
    define a1 where "a1 = argv w @ (if ''--report-path'' \<notin> set (argv w) then [''--report-path'', rf] else [])"
    have in1: "''--config'' \<in> set a1" using c by (simp add: a1_def)
    have r: "argv (snd (check_args E rf w)) =
        (if ''gitleaks'' \<in> set (drop 1 (a1 @ [''--config'', ''src/gitleaks.toml'']))
         then remove1 ''gitleaks'' (a1 @ [''--config'', ''src/gitleaks.toml''])
         else a1 @ [''--config'', ''src/gitleaks.toml''])"
      using in1 by (simp add: eq Let_def a1_def [symmetric])
    show ?thesis
    proof (cases "''gitleaks'' \<in> set (drop 1 (a1 @ [''--config'', ''src/gitleaks.toml'']))")
      case False
      then show ?thesis using r by auto
    next
      case True
      then have "''gitleaks'' \<in> set (a1 @ [''--config'', ''src/gitleaks.toml''])"
        by (rule in_set_dropD)
      then have "''gitleaks'' \<in> set a1" by simp
      then have "remove1 ''gitleaks'' (a1 @ [''--config'', ''src/gitleaks.toml''])
          = remove1 ''gitleaks'' a1 @ [''--config'', ''src/gitleaks.toml'']"
        by (simp add: remove1_append)
      then show ?thesis using r True by auto
    qed
  qed
  show ?thesis
    using eq suffix by (simp add: Let_def)
qed

theorem check_args_config_witness:
  "check_args (ex_env (child_fails [])) ''report.json''
     (ex_world [''transform_results.py'', ''detect'', ''--config''] [])
   = (Returned ''report.json'',
      (ex_world [''transform_results.py'', ''detect'', ''--config''] [])
      \<lparr>argv := [''transform_results.py'', ''detect'', ''--config'',
                 ''--report-path'', ''report.json'', ''--config'', ''src/gitleaks.toml'']\<rparr>)"
  using check_args_config
    [of "ex_world [''transform_results.py'', ''detect'', ''--config''] []"
        "''report.json''" "ex_env (child_fails [])"]
  by (simp add: ex_world_def Let_def)

text \<open>
  C9 as stated, with the settings left as given when the flag has a value, fails:
  \<^verbatim>\<open>--config my.toml\<close> is followed in the result by a second \<^verbatim>\<open>--config\<close> with the
  default path.
\<close>

theorem check_args_config_counterexample:
  "check_args (ex_env (child_fails [])) ''report.json''
     (ex_world [''transform_results.py'', ''detect'', ''--config'', ''my.toml''] [])
   = (Returned ''report.json'',
      (ex_world [''transform_results.py'', ''detect'', ''--config'', ''my.toml''] [])
      \<lparr>argv := [''transform_results.py'', ''detect'', ''--config'', ''my.toml'',
                 ''--report-path'', ''report.json'', ''--config'', ''src/gitleaks.toml'']\<rparr>)"
  by (simp add: check_args_returns ex_world_def Let_def)

text \<open>
  C10. Started with no argument beyond the program name, \<open>main\<close> ends in \<open>check_args\<close>
  with the call of the error reporter: usage message, the code of \<open>COMMAND_ERROR\<close>, and as
  destination the name \<^verbatim>\<open>report_<timestamp>.json\<close> made at the start of the run. The
  process exits with code 2, \<open>check_args\<close> does not return, and the file holds the report
  when it can be opened for writing.
\<close>

theorem main_no_arguments:
  assumes "length (argv w) < 2"
  shows
    "main E w =
       write_error_message E usage_message (exit_value COMMAND_ERROR)
         (''report_'' @ clock w (tick w) @ ''.json'') (w\<lparr>tick := Suc (tick w)\<rparr>)
     \<and> fst (main E w) = Exited 2
     \<and> (\<forall>rf. check_args E rf w =
               (Exited 2,
                snd (write_error_message E usage_message (exit_value COMMAND_ERROR) rf w)))
     \<and> (open_w_err w (''report_'' @ clock w (tick w) @ ''.json'') = None \<longrightarrow>
          files (snd (main E w)) (''report_'' @ clock w (tick w) @ ''.json'') =
            Some (Regular (json_dumps E
              (JObj [(''exit_code'', JInt 2), (''error_message'', JStr usage_message)]))))"
proof -
  have m: "main E w =
       write_error_message E usage_message 2
         (''report_'' @ clock w (tick w) @ ''.json'') (w\<lparr>tick := Suc (tick w)\<rparr>)"
    using assms wem_pair [of E usage_message 2 "''report_'' @ clock w (tick w) @ ''.json''"
        "w\<lparr>tick := Suc (tick w)\<rparr>"]
    by (simp add: main_unfold check_args_usage)
  show ?thesis
    unfolding m using assms
    by (simp add: wem_exits check_args_usage wem_ok error_report_def)
qed

theorem main_no_arguments_witness:
  "fst (main (ex_env (child_fails [])) (ex_world [''transform_results.py''] [])) = Exited 2
   \<and> files (snd (main (ex_env (child_fails [])) (ex_world [''transform_results.py''] [])))
        ''report_2024-05-01_10:00:00.json''
      = Some (Regular (ex_dumps
           (JObj [(''exit_code'', JInt 2), (''error_message'', JStr usage_message)])))"
proof -
  let ?w = "ex_world [''transform_results.py''] []"
  have l: "length (argv ?w) < 2"
    by (simp add: ex_world_def)
  have n: "''report_'' @ clock ?w (tick ?w) @ ''.json'' = ''report_2024-05-01_10:00:00.json''"
    by (simp add: ex_world_def digits_less_10)
  have o: "open_w_err ?w ''report_2024-05-01_10:00:00.json'' = None"
    by (simp add: ex_world_def)
  note t = main_no_arguments [OF l, of "ex_env (child_fails [])"]
  from t have a: "fst (main (ex_env (child_fails [])) ?w) = Exited 2"
    by (rule conjunct1 [OF conjunct2])
  from t o have b: "files (snd (main (ex_env (child_fails [])) ?w))
        ''report_2024-05-01_10:00:00.json''
      = Some (Regular (json_dumps (ex_env (child_fails []))
           (JObj [(''exit_code'', JInt 2), (''error_message'', JStr usage_message)])))"
    unfolding n by blast
  have d: "json_dumps (ex_env (child_fails [])) = ex_dumps"
    by (simp add: ex_env_def)
  from a b show ?thesis
    unfolding d by blast
qed

end
